theory Spec2Isabelle
  imports Complex_Main
begin

section \<open>Billiard Triangle: the physics engine and the round controller\<close>

text \<open>
  A shallow embedding of \<^verbatim>\<open>billiard_triangle.py\<close>. Python floats are modelled as
  \<^typ>\<open>real\<close> (exact arithmetic, no rounding, no overflow, no NaN), Python ints as
  \<^typ>\<open>int\<close>, objects as records and mutation as explicit state passing. Rendering
  (\<^verbatim>\<open>draw\<close>, \<^verbatim>\<open>_draw_game\<close>, \<^verbatim>\<open>_draw_ui\<close>) reads the state only and is left out, with the
  pygame handles (\<^verbatim>\<open>screen\<close>, \<^verbatim>\<open>clock\<close>, \<^verbatim>\<open>font\<close>, \<^verbatim>\<open>cursor_ball_surface\<close>).
\<close>

subsection \<open>Configuration constants\<close>

definition SCREEN_WIDTH :: int where "SCREEN_WIDTH = 800"
definition BOARD_HEIGHT :: int where "BOARD_HEIGHT = 600"
definition BALL_RADIUS :: int where "BALL_RADIUS = 15"

type_synonym rgb = "int \<times> int \<times> int"

definition TARGET_BALL_COLOR :: rgb where "TARGET_BALL_COLOR = (255, 0, 0)"
definition PLAYER_BALL_COLOR :: rgb where "PLAYER_BALL_COLOR = (255, 255, 255)"

definition FRICTION :: real where "FRICTION = 99 / 100"
definition MIN_VELOCITY :: real where "MIN_VELOCITY = 1 / 10"
definition INITIAL_SPEED :: real where "INITIAL_SPEED = 22"
definition RESTITUTION :: real where "RESTITUTION = 6 / 10"
definition WALL_RESTITUTION :: real where "WALL_RESTITUTION = 8 / 10"

subsection \<open>class Ball\<close>

record ball =
  x :: real
  y :: real
  vx :: real
  vy :: real
  color :: rgb
  is_target :: bool
  moving :: bool

text \<open>\<^verbatim>\<open>Ball.__init__(x, y, color, is_target)\<close>\<close>

definition Ball_init :: "real \<Rightarrow> real \<Rightarrow> rgb \<Rightarrow> bool \<Rightarrow> ball" where
  "Ball_init px py c t =
     \<lparr>x = px, y = py, vx = 0, vy = 0, color = c, is_target = t, moving = False\<rparr>"

text \<open>\<^verbatim>\<open>Ball.update\<close>: Euler step, wall bounce per axis, friction, stop test.\<close>

definition update :: "ball \<Rightarrow> ball" where
  "update b =
     (if moving b then
        (let b1 = b\<lparr>x := x b + vx b, y := y b + vy b\<rparr>;
             b2 = (if x b1 - real_of_int BALL_RADIUS < 0
                   then b1\<lparr>x := real_of_int BALL_RADIUS, vx := - vx b1 * WALL_RESTITUTION\<rparr>
                   else if x b1 + real_of_int BALL_RADIUS > real_of_int SCREEN_WIDTH
                   then b1\<lparr>x := real_of_int (SCREEN_WIDTH - BALL_RADIUS),
                           vx := - vx b1 * WALL_RESTITUTION\<rparr>
                   else b1);
             b3 = (if y b2 - real_of_int BALL_RADIUS < 0
                   then b2\<lparr>y := real_of_int BALL_RADIUS, vy := - vy b2 * WALL_RESTITUTION\<rparr>
                   else if y b2 + real_of_int BALL_RADIUS > real_of_int BOARD_HEIGHT
                   then b2\<lparr>y := real_of_int (BOARD_HEIGHT - BALL_RADIUS),
                           vy := - vy b2 * WALL_RESTITUTION\<rparr>
                   else b2);
             b4 = b3\<lparr>vx := vx b3 * FRICTION, vy := vy b3 * FRICTION\<rparr>
         in if sqrt ((vx b4)\<^sup>2 + (vy b4)\<^sup>2) < MIN_VELOCITY
            then b4\<lparr>vx := 0, vy := 0, moving := False\<rparr>
            else b4)
      else b)"

text \<open>\<^verbatim>\<open>Ball.move_towards(target_x, target_y, speed)\<close>\<close>

definition move_towards :: "real \<Rightarrow> real \<Rightarrow> real \<Rightarrow> ball \<Rightarrow> ball" where
  "move_towards target_x target_y speed b =
     (let dx = target_x - x b;
          dy = target_y - y b;
          distance = sqrt (dx\<^sup>2 + dy\<^sup>2)
      in if distance > 0
         then b\<lparr>vx := (dx / distance) * speed, vy := (dy / distance) * speed, moving := True\<rparr>
         else b)"

text \<open>
  \<^verbatim>\<open>Ball.collide_with(other_ball)\<close>: \<open>a\<close> is \<^verbatim>\<open>self\<close>, \<open>b\<close> is \<^verbatim>\<open>other_ball\<close>, two distinct
  objects. The result is the returned flag and the two balls after the call.
\<close>

definition collide_with :: "ball \<Rightarrow> ball \<Rightarrow> bool \<times> ball \<times> ball" where
  "collide_with a b =
     (let dx = x b - x a;
          dy = y b - y a;
          distance = sqrt (dx\<^sup>2 + dy\<^sup>2)
      in if distance < real_of_int (BALL_RADIUS * 2) then
           (let overlap = real_of_int (BALL_RADIUS * 2) - distance;
                (a1, b1) =
                  (if distance > 0
                   then (a\<lparr>x := x a - (dx / distance) * (overlap / 2),
                            y := y a - (dy / distance) * (overlap / 2)\<rparr>,
                         b\<lparr>x := x b + (dx / distance) * (overlap / 2),
                            y := y b + (dy / distance) * (overlap / 2)\<rparr>)
                   else (a, b));
                (a2, b2) =
                  (if distance > 0
                   then (let nx = dx / distance;
                             ny = dy / distance;
                             dvx = vx b1 - vx a1;
                             dvy = vy b1 - vy a1;
                             dot_product = dvx * nx + dvy * ny;
                             impulse = (1 + RESTITUTION) * dot_product
                         in (a1\<lparr>vx := vx a1 + impulse * nx, vy := vy a1 + impulse * ny,
                                 moving := True\<rparr>,
                             b1\<lparr>vx := vx b1 - impulse * nx, vy := vy b1 - impulse * ny,
                                 moving := True\<rparr>))
                   else (a1, b1))
            in (True, a2, b2))
         else (False, a, b))"

subsection \<open>The same operations with Python's arithmetic faults made explicit\<close>

text \<open>
  \<^verbatim>\<open>math.sqrt\<close> raises ValueError on a negative argument and float division raises
  ZeroDivisionError on a zero divisor. The definitions below follow the same source
  lines as the ones above, with every \<^verbatim>\<open>math.sqrt\<close> call and every \<^verbatim>\<open>/\<close> of the source
  going through a checked primitive, in the order in which Python evaluates them.
\<close>

datatype py_error = ZeroDivisionError | ValueError

definition py_sqrt :: "real \<Rightarrow> py_error + real" where
  "py_sqrt r = (if r < 0 then Inl ValueError else Inr (sqrt r))"

definition py_div :: "real \<Rightarrow> real \<Rightarrow> py_error + real" where
  "py_div r d = (if d = 0 then Inl ZeroDivisionError else Inr (r / d))"

definition bind_err :: "py_error + 'a \<Rightarrow> ('a \<Rightarrow> py_error + 'b) \<Rightarrow> py_error + 'b" where
  "bind_err m f = (case m of Inl e \<Rightarrow> Inl e | Inr v \<Rightarrow> f v)"

definition update_chk :: "ball \<Rightarrow> py_error + ball" where
  "update_chk b =
     (if moving b then
        (let b1 = b\<lparr>x := x b + vx b, y := y b + vy b\<rparr>;
             b2 = (if x b1 - real_of_int BALL_RADIUS < 0
                   then b1\<lparr>x := real_of_int BALL_RADIUS, vx := - vx b1 * WALL_RESTITUTION\<rparr>
                   else if x b1 + real_of_int BALL_RADIUS > real_of_int SCREEN_WIDTH
                   then b1\<lparr>x := real_of_int (SCREEN_WIDTH - BALL_RADIUS),
                           vx := - vx b1 * WALL_RESTITUTION\<rparr>
                   else b1);
             b3 = (if y b2 - real_of_int BALL_RADIUS < 0
                   then b2\<lparr>y := real_of_int BALL_RADIUS, vy := - vy b2 * WALL_RESTITUTION\<rparr>
                   else if y b2 + real_of_int BALL_RADIUS > real_of_int BOARD_HEIGHT
                   then b2\<lparr>y := real_of_int (BOARD_HEIGHT - BALL_RADIUS),
                           vy := - vy b2 * WALL_RESTITUTION\<rparr>
                   else b2);
             b4 = b3\<lparr>vx := vx b3 * FRICTION, vy := vy b3 * FRICTION\<rparr>
         in bind_err (py_sqrt ((vx b4)\<^sup>2 + (vy b4)\<^sup>2)) (\<lambda>speed.
              if speed < MIN_VELOCITY
              then Inr (b4\<lparr>vx := 0, vy := 0, moving := False\<rparr>)
              else Inr b4))
      else Inr b)"

definition move_towards_chk :: "real \<Rightarrow> real \<Rightarrow> real \<Rightarrow> ball \<Rightarrow> py_error + ball" where
  "move_towards_chk target_x target_y speed b =
     (let dx = target_x - x b;
          dy = target_y - y b
      in bind_err (py_sqrt (dx\<^sup>2 + dy\<^sup>2)) (\<lambda>distance.
           if distance > 0
           then bind_err (py_div dx distance) (\<lambda>qx.
                bind_err (py_div dy distance) (\<lambda>qy.
                  Inr (b\<lparr>vx := qx * speed, vy := qy * speed, moving := True\<rparr>)))
           else Inr b))"

definition collide_with_chk :: "ball \<Rightarrow> ball \<Rightarrow> py_error + (bool \<times> ball \<times> ball)" where
  "collide_with_chk a b =
     (let dx = x b - x a;
          dy = y b - y a
      in bind_err (py_sqrt (dx\<^sup>2 + dy\<^sup>2)) (\<lambda>distance.
           if distance < real_of_int (BALL_RADIUS * 2) then
             (let overlap = real_of_int (BALL_RADIUS * 2) - distance
              in bind_err
                   (if distance > 0
                    then bind_err (py_div dx distance) (\<lambda>q1.
                         bind_err (py_div overlap 2) (\<lambda>h1.
                         bind_err (py_div dy distance) (\<lambda>q2.
                         bind_err (py_div overlap 2) (\<lambda>h2.
                         bind_err (py_div dx distance) (\<lambda>q3.
                         bind_err (py_div overlap 2) (\<lambda>h3.
                         bind_err (py_div dy distance) (\<lambda>q4.
                         bind_err (py_div overlap 2) (\<lambda>h4.
                           Inr (a\<lparr>x := x a - q1 * h1, y := y a - q2 * h2\<rparr>,
                                b\<lparr>x := x b + q3 * h3, y := y b + q4 * h4\<rparr>)))))))))
                    else Inr (a, b))
                   (\<lambda>(a1, b1).
                 bind_err
                   (if distance > 0
                    then bind_err (py_div dx distance) (\<lambda>nx.
                         bind_err (py_div dy distance) (\<lambda>ny.
                           (let dvx = vx b1 - vx a1;
                                dvy = vy b1 - vy a1;
                                dot_product = dvx * nx + dvy * ny;
                                impulse = (1 + RESTITUTION) * dot_product
                            in Inr (a1\<lparr>vx := vx a1 + impulse * nx, vy := vy a1 + impulse * ny,
                                       moving := True\<rparr>,
                                    b1\<lparr>vx := vx b1 - impulse * nx, vy := vy b1 - impulse * ny,
                                       moving := True\<rparr>))))
                    else Inr (a1, b1))
                   (\<lambda>(a2, b2). Inr (True, a2, b2))))
           else Inr (False, a, b)))"

subsection \<open>class BilliardTriangleGame\<close>

record game =
  best_score :: real
  target_ball :: ball
  player_balls :: "ball list"
  balls_left :: int
  placing_ball :: bool
  all_balls_stopped :: bool
  game_over :: bool
  current_score :: real
  triangle :: "(real \<times> real) list option"
  temp_ball :: "ball option"

text \<open>
  \<^verbatim>\<open>random.randint(a, b)\<close> returns an integer \<open>N\<close> with \<open>a \<le> N \<le> b\<close>: the set of its
  possible results.
\<close>

definition randint :: "int \<Rightarrow> int \<Rightarrow> int set" where
  "randint a b = {a..b}"

text \<open>
  \<^verbatim>\<open>reset_game\<close>, with the results of its two \<^verbatim>\<open>random.randint\<close> calls as arguments;
  \<open>reset_game_draws\<close> is the set of pairs the two calls can return.
\<close>

definition reset_game_draws :: "(int \<times> int) set" where
  "reset_game_draws =
     randint (BALL_RADIUS * 2) (SCREEN_WIDTH - BALL_RADIUS * 2) \<times>
     randint (BALL_RADIUS * 2) (BOARD_HEIGHT - BALL_RADIUS * 2)"

definition reset_game :: "int \<Rightarrow> int \<Rightarrow> game \<Rightarrow> game" where
  "reset_game target_x target_y g =
     g\<lparr>target_ball := Ball_init (real_of_int target_x) (real_of_int target_y)
                         TARGET_BALL_COLOR True,
       player_balls := [],
       balls_left := 2,
       placing_ball := False,
       all_balls_stopped := True,
       game_over := False,
       current_score := 0,
       triangle := None,
       temp_ball := None\<rparr>"

definition reset_game_outcomes :: "game \<Rightarrow> game set" where
  "reset_game_outcomes g = (\<lambda>(target_x, target_y). reset_game target_x target_y g) ` reset_game_draws"

text \<open>The target positions a reset can produce.\<close>

definition spawn_positions :: "game \<Rightarrow> (real \<times> real) set" where
  "spawn_positions g = (\<lambda>g'. (x (target_ball g'), y (target_ball g'))) ` reset_game_outcomes g"

text \<open>
  \<^verbatim>\<open>BilliardTriangleGame.__init__\<close>: \<^verbatim>\<open>best_score = 0\<close>, then \<^verbatim>\<open>reset_game()\<close>, which
  assigns every other field (the values given to them here are overwritten).
\<close>

definition Game_init :: "int \<Rightarrow> int \<Rightarrow> game" where
  "Game_init target_x target_y =
     reset_game target_x target_y
       \<lparr>best_score = 0, target_ball = Ball_init 0 0 TARGET_BALL_COLOR True,
        player_balls = [], balls_left = 0, placing_ball = False,
        all_balls_stopped = False, game_over = False, current_score = 0,
        triangle = None, temp_ball = None\<rparr>"

text \<open>\<^verbatim>\<open>all_stopped\<close>: the loop returns False at the first moving player ball.\<close>

primrec players_stopped :: "ball list \<Rightarrow> bool" where
  "players_stopped [] = True"
| "players_stopped (b # bs) = (if moving b then False else players_stopped bs)"

definition all_stopped :: "game \<Rightarrow> bool" where
  "all_stopped g = (if moving (target_ball g) then False else players_stopped (player_balls g))"

text \<open>
  \<^verbatim>\<open>update_balls\<close>. The balls are shared mutable objects: the target and the entries of
  \<^verbatim>\<open>player_balls\<close>, all distinct, so a ball is named by where the game holds it and
  \<^verbatim>\<open>ball != other_ball\<close> (object identity, \<^verbatim>\<open>Ball\<close> defines no \<^verbatim>\<open>__eq__\<close>) is inequality of
  list positions.
\<close>

datatype ball_ref = Target | Player nat

fun get_ball :: "game \<Rightarrow> ball_ref \<Rightarrow> ball" where
  "get_ball g Target = target_ball g"
| "get_ball g (Player i) = player_balls g ! i"

fun put_ball :: "ball_ref \<Rightarrow> ball \<Rightarrow> game \<Rightarrow> game" where
  "put_ball Target b g = g\<lparr>target_ball := b\<rparr>"
| "put_ball (Player i) b g = g\<lparr>player_balls := (player_balls g)[i := b]\<rparr>"

definition do_update :: "ball_ref \<Rightarrow> game \<Rightarrow> game" where
  "do_update r g = put_ball r (update (get_ball g r)) g"

definition do_collide :: "ball_ref \<Rightarrow> ball_ref \<Rightarrow> game \<Rightarrow> game" where
  "do_collide r s g =
     (let (hit, a', b') = collide_with (get_ball g r) (get_ball g s)
      in put_ball s b' (put_ball r a' g))"

definition update_balls :: "game \<Rightarrow> game" where
  "update_balls g =
     (let n = length (player_balls g);
          g1 = do_update Target g
      in fold (\<lambda>i gi.
                 (let g2 = do_update (Player i) gi;
                      g3 = do_collide (Player i) Target g2
                  in fold (\<lambda>j gj. if i \<noteq> j then do_collide (Player i) (Player j) gj else gj)
                       [0..<n] g3))
           [0..<n] g1)"

text \<open>
  The calls \<^verbatim>\<open>update_balls\<close> makes on a game with \<open>n\<close> player balls, in order:
  the same two loops, recording each call instead of running it.
\<close>

datatype ball_op = Update ball_ref | Collide ball_ref ball_ref

fun exec_op :: "ball_op \<Rightarrow> game \<Rightarrow> game" where
  "exec_op (Update r) g = do_update r g"
| "exec_op (Collide r s) g = do_collide r s g"

definition update_balls_ops :: "nat \<Rightarrow> ball_op list" where
  "update_balls_ops n =
     Update Target #
     concat (map (\<lambda>i. Update (Player i) # Collide (Player i) Target #
                       concat (map (\<lambda>j. if i \<noteq> j then [Collide (Player i) (Player j)] else [])
                                 [0..<n]))
               [0..<n])"


text \<open>
  \<^verbatim>\<open>calculate_triangle_area\<close>: returns the area and the game after the call (the method
  assigns \<^verbatim>\<open>self.triangle\<close>).
\<close>

definition calculate_triangle_area :: "game \<Rightarrow> real \<times> game" where
  "calculate_triangle_area g =
     (if length (player_balls g) < 2 then (0, g)
      else
        (let p1 = (x (target_ball g), y (target_ball g));
             p2 = (x (player_balls g ! 0), y (player_balls g ! 0));
             p3 = (x (player_balls g ! 1), y (player_balls g ! 1));
             a = sqrt ((fst p2 - fst p1)\<^sup>2 + (snd p2 - snd p1)\<^sup>2);
             b = sqrt ((fst p3 - fst p2)\<^sup>2 + (snd p3 - snd p2)\<^sup>2);
             c = sqrt ((fst p1 - fst p3)\<^sup>2 + (snd p1 - snd p3)\<^sup>2);
             s = (a + b + c) / 2
         in if s > 0 \<and> s > a \<and> s > b \<and> s > c
            then (sqrt (s * (s - a) * (s - b) * (s - c)), g\<lparr>triangle := Some [p1, p2, p3]\<rparr>)
            else (0, g)))"

definition calculate_triangle_area_chk :: "game \<Rightarrow> py_error + (real \<times> game)" where
  "calculate_triangle_area_chk g =
     (if length (player_balls g) < 2 then Inr (0, g)
      else
        (let p1 = (x (target_ball g), y (target_ball g));
             p2 = (x (player_balls g ! 0), y (player_balls g ! 0));
             p3 = (x (player_balls g ! 1), y (player_balls g ! 1))
         in bind_err (py_sqrt ((fst p2 - fst p1)\<^sup>2 + (snd p2 - snd p1)\<^sup>2)) (\<lambda>a.
            bind_err (py_sqrt ((fst p3 - fst p2)\<^sup>2 + (snd p3 - snd p2)\<^sup>2)) (\<lambda>b.
            bind_err (py_sqrt ((fst p1 - fst p3)\<^sup>2 + (snd p1 - snd p3)\<^sup>2)) (\<lambda>c.
            bind_err (py_div (a + b + c) 2) (\<lambda>s.
              if s > 0 \<and> s > a \<and> s > b \<and> s > c
              then bind_err (py_sqrt (s * (s - a) * (s - b) * (s - c))) (\<lambda>area.
                     Inr (area, g\<lparr>triangle := Some [p1, p2, p3]\<rparr>))
              else Inr (0, g)))))))"

subsection \<open>The main loop\<close>

text \<open>
  The overlap test of the MOUSEBUTTONDOWN and MOUSEMOTION branches (the same lines in
  both): \<^verbatim>\<open>can_place\<close> starts True and is set False by the target and by each player ball
  closer than two radii.
\<close>

definition too_close :: "int \<times> int \<Rightarrow> ball \<Rightarrow> bool" where
  "too_close mouse_pos b \<longleftrightarrow>
     sqrt ((real_of_int (fst mouse_pos) - x b)\<^sup>2 + (real_of_int (snd mouse_pos) - y b)\<^sup>2)
       < real_of_int (BALL_RADIUS * 2)"

definition can_place :: "int \<times> int \<Rightarrow> game \<Rightarrow> bool" where
  "can_place mouse_pos g =
     fold (\<lambda>b c. if too_close mouse_pos b then False else c) (player_balls g)
       (if too_close mouse_pos (target_ball g) then False else True)"

text \<open>
  The events of one frame. Each carries what its branch reads from the environment:
  the pressed button, the pointer position \<^verbatim>\<open>pygame.mouse.get_pos()\<close>, and for the R key
  the two numbers \<^verbatim>\<open>reset_game\<close> draws.
\<close>

datatype event =
    QUIT
  | KEYDOWN_ESCAPE
  | KEYDOWN_r int int
  | KEYDOWN_other
  | MOUSEBUTTONDOWN int "int \<times> int"
  | MOUSEBUTTONUP int
  | MOUSEMOTION "int \<times> int"
  | OTHER_EVENT

definition mouse_button_down :: "int \<Rightarrow> int \<times> int \<Rightarrow> game \<Rightarrow> game" where
  "mouse_button_down button mouse_pos g =
     (if button = 1 \<and> all_stopped g \<and> balls_left g > 0 \<and> \<not> game_over g then
        (if snd mouse_pos \<le> BOARD_HEIGHT then
           (if can_place mouse_pos g then
              (let new_ball = Ball_init (real_of_int (fst mouse_pos)) (real_of_int (snd mouse_pos))
                                PLAYER_BALL_COLOR False
               in g\<lparr>placing_ball := True,
                     player_balls := player_balls g @ [new_ball],
                     balls_left := balls_left g - 1\<rparr>)
            else g)
         else g)
      else g)"

definition mouse_button_up :: "int \<Rightarrow> game \<Rightarrow> game" where
  "mouse_button_up button g =
     (if button = 1 \<and> placing_ball g then
        (let g1 = g\<lparr>placing_ball := False\<rparr>
         in if player_balls g1 \<noteq> [] then
              (let k = length (player_balls g1) - 1;
                   last_ball = (player_balls g1 ! k)\<lparr>color := PLAYER_BALL_COLOR\<rparr>;
                   last_ball' = move_towards (x (target_ball g1)) (y (target_ball g1))
                                  INITIAL_SPEED last_ball
               in g1\<lparr>player_balls := (player_balls g1)[k := last_ball'],
                      all_balls_stopped := False\<rparr>)
            else g1)
      else g)"

definition mouse_motion :: "int \<times> int \<Rightarrow> game \<Rightarrow> game" where
  "mouse_motion mouse_pos g =
     (if snd mouse_pos \<le> BOARD_HEIGHT \<and> all_stopped g \<and> balls_left g > 0 \<and> \<not> game_over g then
        (if can_place mouse_pos g
         then g\<lparr>temp_ball := Some (Ball_init (real_of_int (fst mouse_pos))
                                      (real_of_int (snd mouse_pos)) PLAYER_BALL_COLOR False)\<rparr>
         else g\<lparr>temp_ball := None\<rparr>)
      else g)"

text \<open>One event: the local flag \<^verbatim>\<open>running\<close> and the game.\<close>

fun handle_event :: "event \<Rightarrow> bool \<times> game \<Rightarrow> bool \<times> game" where
  "handle_event QUIT (running, g) = (False, g)"
| "handle_event KEYDOWN_ESCAPE (running, g) = (False, g)"
| "handle_event (KEYDOWN_r target_x target_y) (running, g) = (running, reset_game target_x target_y g)"
| "handle_event KEYDOWN_other (running, g) = (running, g)"
| "handle_event (MOUSEBUTTONDOWN button mouse_pos) (running, g) =
     (running, mouse_button_down button mouse_pos g)"
| "handle_event (MOUSEBUTTONUP button) (running, g) = (running, mouse_button_up button g)"
| "handle_event (MOUSEMOTION mouse_pos) (running, g) = (running, mouse_motion mouse_pos g)"
| "handle_event OTHER_EVENT (running, g) = (running, g)"

text \<open>The ball update of one frame (the block after the event loop).\<close>

definition frame_update :: "game \<Rightarrow> game" where
  "frame_update g =
     (if \<not> all_balls_stopped g then
        (let g1 = update_balls g;
             g2 = g1\<lparr>all_balls_stopped := all_stopped g1\<rparr>
         in if all_balls_stopped g2 then
              (if balls_left g2 = 0 then
                 (let (area, g3) = calculate_triangle_area g2;
                      g4 = g3\<lparr>current_score := area\<rparr>;
                      g5 = (if current_score g4 > best_score g4
                            then g4\<lparr>best_score := current_score g4\<rparr> else g4)
                  in g5\<lparr>game_over := True\<rparr>)
               else g2)
            else g2)
      else g)"

text \<open>
  \<^verbatim>\<open>run\<close> on the frames of a finite run, each frame the list of events
  \<^verbatim>\<open>pygame.event.get()\<close> returns in it: all events of the frame are handled, then the balls
  are updated, and the loop is left after the frame in which \<^verbatim>\<open>running\<close> became False.
\<close>

fun run :: "event list list \<Rightarrow> game \<Rightarrow> game" where
  "run [] g = g"
| "run (evs # frames) g =
     (let (running, g1) = fold handle_event evs (True, g);
          g2 = frame_update g1
      in if running then run frames g2 else g2)"

subsection \<open>The representation invariant of a ball, and measures used in the statements\<close>

text \<open>A ball at rest has zero velocity.\<close>

definition ball_inv :: "ball \<Rightarrow> bool" where
  "ball_inv b \<longleftrightarrow> (\<not> moving b \<longrightarrow> vx b = 0 \<and> vy b = 0)"

definition speed_of :: "ball \<Rightarrow> real" where
  "speed_of b = sqrt ((vx b)\<^sup>2 + (vy b)\<^sup>2)"

text \<open>
  The component of a ball's velocity along the collision normal of the pair \<open>(a, b)\<close>
  (the unit vector from \<open>a\<close>'s centre to \<open>b\<close>'s, as \<^verbatim>\<open>collide_with\<close> computes it), and the
  kinetic energy (unit masses) the two normal components carry.
\<close>

definition normal_component :: "ball \<Rightarrow> ball \<Rightarrow> ball \<Rightarrow> real" where
  "normal_component a b c =
     (let dx = x b - x a; dy = y b - y a; distance = sqrt (dx\<^sup>2 + dy\<^sup>2)
      in vx c * (dx / distance) + vy c * (dy / distance))"

definition normal_energy :: "ball \<Rightarrow> ball \<Rightarrow> ball \<Rightarrow> ball \<Rightarrow> real" where
  "normal_energy a b c d = ((normal_component a b c)\<^sup>2 + (normal_component a b d)\<^sup>2) / 2"

text \<open>Every ball of the game satisfies the representation invariant.\<close>

definition game_inv :: "game \<Rightarrow> bool" where
  "game_inv g \<longleftrightarrow> ball_inv (target_ball g) \<and> (\<forall>b\<in>set (player_balls g). ball_inv b)"

text \<open>The calls of \<^verbatim>\<open>update_balls\<close> name balls that exist: positions below the length of the list.\<close>

fun ref_in_range :: "nat \<Rightarrow> ball_ref \<Rightarrow> bool" where
  "ref_in_range n Target = True"
| "ref_in_range n (Player i) = (i < n)"

fun op_in_range :: "nat \<Rightarrow> ball_op \<Rightarrow> bool" where
  "op_in_range n (Update r) = ref_in_range n r"
| "op_in_range n (Collide r s) = (ref_in_range n r \<and> ref_in_range n s)"

subsection \<open>Example states\<close>

text \<open>
  A player ball creeping to the right at a twentieth of a unit per tick: one more
  \<^verbatim>\<open>update\<close> stops it.
\<close>

definition slow_ball :: ball where
  "slow_ball = \<lparr>x = 100, y = 200, vx = 1 / 20, vy = 0, color = PLAYER_BALL_COLOR,
                 is_target = False, moving = True\<rparr>"

text \<open>
  A finished round: the target at \<open>(100, 100)\<close> and two player balls at \<open>(400, 100)\<close> and
  \<open>(100, 500)\<close>, all at rest, no ball left to place, the score not yet computed.
\<close>

definition example_game :: game where
  "example_game =
     \<lparr>best_score = 0, target_ball = Ball_init 100 100 TARGET_BALL_COLOR True,
      player_balls = [Ball_init 400 100 PLAYER_BALL_COLOR False,
                      Ball_init 100 500 PLAYER_BALL_COLOR False],
      balls_left = 0, placing_ball = False, all_balls_stopped = True, game_over = False,
      current_score = 0, triangle = None, temp_ball = None\<rparr>"

text \<open>The same round one tick earlier: the main loop has not yet seen the balls at rest.\<close>

definition settled_game :: game where
  "settled_game = example_game\<lparr>all_balls_stopped := False\<rparr>"

text \<open>
  A player ball placed at \<open>(78, 100)\<close> and launched at the target at \<open>(120, 100)\<close>, after
  its first \<^verbatim>\<open>update\<close>: it overlaps the target, which is still at rest.
\<close>

definition cue_ball :: ball where
  "cue_ball = \<lparr>x = 100, y = 100, vx = 2178 / 100, vy = 0, color = PLAYER_BALL_COLOR,
                is_target = False, moving = True\<rparr>"

definition object_ball :: ball where
  "object_ball = Ball_init 120 100 TARGET_BALL_COLOR True"

text \<open>
  A round with the target at \<open>(120, 100)\<close> in which the player pressed the button at
  \<open>(78, 100)\<close> and released it: the first ball is launched, no tick has passed yet.
\<close>

definition launched_game :: game where
  "launched_game = mouse_button_up 1 (mouse_button_down 1 (78, 100) (Game_init 120 100))"

text \<open>
  The first two frames of that round (press, then release), and the game after them:
  the launched ball has been integrated once and has hit the target.
\<close>

definition first_frames :: "event list list" where
  "first_frames = [[MOUSEBUTTONDOWN 1 (78, 100)], [MOUSEBUTTONUP 1]]"

definition after_first_collision :: game where
  "after_first_collision =
     \<lparr>best_score = 0,
      target_ball = object_ball\<lparr>x := 125, vx := 4356 / 125, moving := True\<rparr>,
      player_balls = [cue_ball\<lparr>x := 95, vx := - (3267 / 250)\<rparr>],
      balls_left = 1, placing_ball = False, all_balls_stopped = False, game_over = False,
      current_score = 0, triangle = None, temp_ball = None\<rparr>"

section \<open>Arithmetic faults cannot occur\<close>

lemma bind_err_Inr [simp]: "bind_err (Inr v) f = f v"
  by (simp add: bind_err_def)

lemma py_sqrt_sum_squares [simp]: "py_sqrt (p\<^sup>2 + q\<^sup>2) = Inr (sqrt (p\<^sup>2 + q\<^sup>2))"
  by (simp add: py_sqrt_def not_less)

lemma py_div_nonzero [simp]: "d \<noteq> 0 \<Longrightarrow> py_div r d = Inr (r / d)"
  by (simp add: py_div_def)

lemma py_div_sqrt_pos [simp]:
  "0 < p\<^sup>2 + q\<^sup>2 \<Longrightarrow> py_div r (sqrt (p\<^sup>2 + q\<^sup>2)) = Inr (r / sqrt (p\<^sup>2 + q\<^sup>2))"
proof -
  assume "0 < p\<^sup>2 + q\<^sup>2"
  then have "0 < sqrt (p\<^sup>2 + q\<^sup>2)" by (rule real_sqrt_gt_zero)
  then show ?thesis by (simp only: py_div_def less_irrefl if_False split: if_splits) auto
qed

lemma update_chk_eq: "update_chk b = Inr (update b)"
  by (simp add: update_chk_def update_def Let_def)

lemma move_towards_chk_eq: "move_towards_chk tx ty sp b = Inr (move_towards tx ty sp b)"
  by (simp add: move_towards_chk_def move_towards_def Let_def)

lemma collide_with_chk_eq: "collide_with_chk a b = Inr (collide_with a b)"
  by (simp add: collide_with_chk_def collide_with_def Let_def)

lemma heron_radicand_pos:
  fixes s a b c :: real
  assumes "s > 0" "s > a" "s > b" "s > c"
  shows "0 < s * (s - a) * (s - b) * (s - c)"
  using assms by simp

lemma py_sqrt_heron:
  fixes s a b c :: real
  shows "s > 0 \<and> s > a \<and> s > b \<and> s > c \<Longrightarrow>
    py_sqrt (s * (s - a) * (s - b) * (s - c)) = Inr (sqrt (s * (s - a) * (s - b) * (s - c)))"
  by (simp add: py_sqrt_def not_less)

lemma py_div_two: "py_div r 2 = Inr (r / 2)"
  by (simp add: py_div_def)

lemma heron_branch:
  fixes s a b c :: real
  shows "(if s > 0 \<and> s > a \<and> s > b \<and> s > c
          then bind_err (py_sqrt (s * (s - a) * (s - b) * (s - c))) (\<lambda>area. Inr (F area))
          else Inr Z) =
         Inr (if s > 0 \<and> s > a \<and> s > b \<and> s > c
              then F (sqrt (s * (s - a) * (s - b) * (s - c))) else Z)"
  by (simp add: py_sqrt_heron)

lemma calculate_triangle_area_chk_eq:
  "calculate_triangle_area_chk g = Inr (calculate_triangle_area g)"
proof (cases "length (player_balls g) < 2")
  case True
  then show ?thesis
    by (simp add: calculate_triangle_area_chk_def calculate_triangle_area_def)
next
  case False
  then show ?thesis
    unfolding calculate_triangle_area_chk_def calculate_triangle_area_def
    by (simp only: Let_def bind_err_Inr py_sqrt_sum_squares py_div_two heron_branch if_False)
qed

lemma collide_with_coincident:
  "x a = x b \<Longrightarrow> y a = y b \<Longrightarrow> collide_with a b = (True, a, b)"
  by (simp add: collide_with_def BALL_RADIUS_def)

lemma move_towards_own_position: "move_towards (x b) (y b) sp b = b"
  by (simp add: move_towards_def)

lemma ball_inv_init: "ball_inv (Ball_init px py c t)"
  by (simp add: ball_inv_def Ball_init_def)

lemma ball_inv_update: "ball_inv b \<Longrightarrow> ball_inv (update b)"
  by (simp add: ball_inv_def update_def Let_def)

lemma ball_inv_move_towards: "ball_inv b \<Longrightarrow> ball_inv (move_towards tx ty sp b)"
  by (simp add: ball_inv_def move_towards_def Let_def)

lemma ball_inv_collide_with:
  "ball_inv a \<Longrightarrow> ball_inv b \<Longrightarrow>
   ball_inv (fst (snd (collide_with a b))) \<and> ball_inv (snd (snd (collide_with a b)))"
  by (simp add: ball_inv_def collide_with_def Let_def)

lemma update_moving_speed: "moving (update b) \<Longrightarrow> MIN_VELOCITY \<le> speed_of (update b)"
  by (simp add: update_def speed_of_def Let_def split: if_splits)

section \<open>Friction brings every ball to rest\<close>

lemma sqrt_sum_squares_scale:
  fixes p q p' q' k :: real
  assumes "\<bar>p'\<bar> \<le> k * \<bar>p\<bar>" and "\<bar>q'\<bar> \<le> k * \<bar>q\<bar>" and "0 \<le> k"
  shows "sqrt (p'\<^sup>2 + q'\<^sup>2) \<le> k * sqrt (p\<^sup>2 + q\<^sup>2)"
proof -
  have "p'\<^sup>2 = \<bar>p'\<bar>\<^sup>2" by simp
  also have "\<dots> \<le> (k * \<bar>p\<bar>)\<^sup>2" using assms(1) by (intro power_mono) simp_all
  finally have 1: "p'\<^sup>2 \<le> k\<^sup>2 * p\<^sup>2" by (simp add: power_mult_distrib)
  have "q'\<^sup>2 = \<bar>q'\<bar>\<^sup>2" by simp
  also have "\<dots> \<le> (k * \<bar>q\<bar>)\<^sup>2" using assms(2) by (intro power_mono) simp_all
  finally have 2: "q'\<^sup>2 \<le> k\<^sup>2 * q\<^sup>2" by (simp add: power_mult_distrib)
  from 1 2 have "p'\<^sup>2 + q'\<^sup>2 \<le> k\<^sup>2 * (p\<^sup>2 + q\<^sup>2)" by (simp add: algebra_simps)
  then have "sqrt (p'\<^sup>2 + q'\<^sup>2) \<le> sqrt (k\<^sup>2 * (p\<^sup>2 + q\<^sup>2))" by (rule real_sqrt_le_mono)
  also have "\<dots> = k * sqrt (p\<^sup>2 + q\<^sup>2)" using assms(3) by (simp add: real_sqrt_mult)
  finally show ?thesis .
qed

lemma update_at_rest: "\<not> moving b \<Longrightarrow> update b = b"
  by (simp add: update_def)

lemma update_moving_before: "moving (update b) \<Longrightarrow> moving b"
  by (cases "moving b") (simp_all add: update_at_rest)

lemma update_velocity_bound:
  assumes "moving (update b)"
  shows "\<bar>vx (update b)\<bar> \<le> FRICTION * \<bar>vx b\<bar> \<and> \<bar>vy (update b)\<bar> \<le> FRICTION * \<bar>vy b\<bar>"
  using assms
  by (auto simp add: update_def Let_def FRICTION_def WALL_RESTITUTION_def abs_mult split: if_splits)

lemma update_speed_decay:
  assumes "moving (update b)"
  shows "speed_of (update b) \<le> FRICTION * speed_of b"
  unfolding speed_of_def
  using update_velocity_bound [OF assms]
  by (intro sqrt_sum_squares_scale) (simp_all add: FRICTION_def)

lemma funpow_update_speed:
  "moving ((update ^^ n) b) \<Longrightarrow> speed_of ((update ^^ n) b) \<le> FRICTION ^ n * speed_of b"
proof (induction n)
  case 0
  show ?case by simp
next
  case (Suc n)
  let ?c = "(update ^^ n) b"
  from Suc.prems have mv: "moving (update ?c)" by simp
  then have "moving ?c" by (rule update_moving_before)
  then have "speed_of ?c \<le> FRICTION ^ n * speed_of b" by (rule Suc.IH)
  then have "FRICTION * speed_of ?c \<le> FRICTION * (FRICTION ^ n * speed_of b)"
    by (intro mult_left_mono) (simp_all add: FRICTION_def)
  with update_speed_decay [OF mv] show ?case by simp
qed

lemma funpow_update_at_rest: "\<not> moving b \<Longrightarrow> (update ^^ m) b = b"
  by (induction m) (simp_all add: update_at_rest)

lemma funpow_update_inv: "ball_inv b \<Longrightarrow> ball_inv ((update ^^ n) b)"
  by (induction n) (simp_all add: ball_inv_update)

lemma friction_power_small:
  assumes "0 \<le> s"
  shows "\<exists>n. FRICTION ^ n * s < MIN_VELOCITY"
proof -
  have "0 < MIN_VELOCITY / (s + 1)" using assms by (simp add: MIN_VELOCITY_def)
  moreover have "FRICTION < 1" by (simp add: FRICTION_def)
  ultimately obtain n where n: "FRICTION ^ n < MIN_VELOCITY / (s + 1)"
    using real_arch_pow_inv by blast
  have "FRICTION ^ n * s \<le> FRICTION ^ n * (s + 1)"
    by (intro mult_left_mono) (simp_all add: FRICTION_def)
  also have "\<dots> < MIN_VELOCITY" using n assms by (simp add: field_simps)
  finally show ?thesis by blast
qed

lemma settles:
  "\<exists>n. \<not> moving ((update ^^ n) b)"
proof -
  have "0 \<le> speed_of b" by (simp add: speed_of_def)
  then obtain n where n: "FRICTION ^ n * speed_of b < MIN_VELOCITY"
    using friction_power_small by blast
  have "\<not> moving ((update ^^ Suc n) b)"
  proof
    assume mv: "moving ((update ^^ Suc n) b)"
    then have "moving (update ((update ^^ n) b))" by simp
    then have lo: "MIN_VELOCITY \<le> speed_of ((update ^^ Suc n) b)"
      using update_moving_speed by simp
    have "speed_of ((update ^^ Suc n) b) \<le> FRICTION ^ Suc n * speed_of b"
      using mv by (rule funpow_update_speed)
    also have "\<dots> = FRICTION * (FRICTION ^ n * speed_of b)" by simp
    also have "\<dots> \<le> 1 * (FRICTION ^ n * speed_of b)"
      by (intro mult_right_mono) (simp_all add: FRICTION_def speed_of_def)
    finally show False using lo n by simp
  qed
  then show ?thesis ..
qed

section \<open>The calls made by one tick\<close>

lemma fold_concat_map:
  "fold f (concat (map h ks)) = fold (\<lambda>k. fold f (h k)) ks"
  by (induction ks) (simp_all add: fun_eq_iff)

lemma fold_exec_op_optional:
  "fold exec_op (if c then [Collide r s] else []) = (\<lambda>g. if c then do_collide r s g else g)"
  by (simp add: fun_eq_iff)

lemma exec_op_unapplied:
  "exec_op (Update r) = do_update r"
  "exec_op (Collide r s) = do_collide r s"
  by (simp_all add: fun_eq_iff)

lemma update_balls_runs_ops:
  "update_balls g = fold exec_op (update_balls_ops (length (player_balls g))) g"
  by (simp add: update_balls_def update_balls_ops_def Let_def fold_concat_map
        fold_exec_op_optional exec_op_unapplied comp_def)









lemma update_balls_ops_two:
  "update_balls_ops 2 =
     [Update Target,
      Update (Player 0), Collide (Player 0) Target, Collide (Player 0) (Player 1),
      Update (Player 1), Collide (Player 1) Target, Collide (Player 1) (Player 0)]"
  by (simp add: update_balls_ops_def upt_rec numeral_2_eq_2)

section \<open>Concrete evaluation\<close>

lemma sqrt_less_pos_iff:
  fixes r c :: real
  assumes "0 < c"
  shows "sqrt r < c \<longleftrightarrow> r < c\<^sup>2"
proof -
  from assms have "sqrt (c\<^sup>2) = c" by simp
  then have "sqrt r < c \<longleftrightarrow> sqrt r < sqrt (c\<^sup>2)" by simp
  then show ?thesis by (simp only: real_sqrt_less_iff)
qed

lemma update_slow_ball:
  "update slow_ball = slow_ball\<lparr>x := 100 + 1 / 20, vx := 0, moving := False\<rparr>"
proof -
  have "sqrt (9801 / 4000000) < 1 / (10::real)"
    by (rule iffD2 [OF sqrt_less_pos_iff]) (simp_all add: power2_eq_square)
  then have "sqrt (9801 / 4000000) * 10 < (1::real)" by simp
  then show ?thesis
    by (simp add: update_def slow_ball_def Let_def BALL_RADIUS_def SCREEN_WIDTH_def
          BOARD_HEIGHT_def FRICTION_def MIN_VELOCITY_def WALL_RESTITUTION_def power2_eq_square)
qed

lemma sqrt_numeral_facts:
  "sqrt 400 = 20" "sqrt 1764 = 42" "sqrt 90000 = 300" "sqrt 160000 = 400" "sqrt 250000 = 500"
  "sqrt 3600000000 = 60000"
  by (rule real_sqrt_unique; simp)+

section \<open>Placement\<close>

lemma fold_can_place:
  "fold (\<lambda>b c. if P b then False else c) bs c0 \<longleftrightarrow> c0 \<and> (\<forall>b\<in>set bs. \<not> P b)"
  by (induction bs arbitrary: c0) auto

lemma can_place_iff:
  "can_place mouse_pos g \<longleftrightarrow>
     \<not> too_close mouse_pos (target_ball g) \<and> (\<forall>b\<in>set (player_balls g). \<not> too_close mouse_pos b)"
  by (simp add: can_place_def fold_can_place)

section \<open>The best score\<close>

lemma best_score_put_ball [simp]: "best_score (put_ball r b g) = best_score g"
  by (cases r) simp_all

lemma balls_left_put_ball [simp]: "balls_left (put_ball r b g) = balls_left g"
  by (cases r) simp_all

lemma best_score_exec_op [simp]: "best_score (exec_op ob g) = best_score g"
  by (cases ob) (simp_all add: do_update_def do_collide_def Let_def split: prod.splits)

lemma balls_left_exec_op [simp]: "balls_left (exec_op ob g) = balls_left g"
  by (cases ob) (simp_all add: do_update_def do_collide_def Let_def split: prod.splits)

lemma best_score_fold_exec_op [simp]: "best_score (fold exec_op obs g) = best_score g"
  by (induction obs arbitrary: g) simp_all

lemma balls_left_fold_exec_op [simp]: "balls_left (fold exec_op obs g) = balls_left g"
  by (induction obs arbitrary: g) simp_all

lemma best_score_update_balls [simp]: "best_score (update_balls g) = best_score g"
  by (simp add: update_balls_runs_ops)

lemma balls_left_update_balls [simp]: "balls_left (update_balls g) = balls_left g"
  by (simp add: update_balls_runs_ops)

lemma best_score_calculate [simp]:
  "best_score (snd (calculate_triangle_area g)) = best_score g"
  by (simp add: calculate_triangle_area_def Let_def)

lemma frame_update_best_score:
  "best_score (frame_update g) =
     (if \<not> all_balls_stopped g \<and> all_stopped (update_balls g) \<and> balls_left g = 0
      then max (best_score g) (current_score (frame_update g))
      else best_score g)"
  by (simp add: frame_update_def Let_def max_def case_prod_beta)

lemma frame_update_finishing:
  "\<not> all_balls_stopped g \<and> all_stopped (update_balls g) \<and> balls_left g = 0 \<Longrightarrow>
   game_over (frame_update g) \<and>
   current_score (frame_update g) = fst (calculate_triangle_area
       ((update_balls g)\<lparr>all_balls_stopped := True\<rparr>))"
  by (simp add: frame_update_def Let_def case_prod_beta)

lemma best_score_frame_update: "best_score g \<le> best_score (frame_update g)"
  by (simp add: frame_update_best_score)

lemma best_score_reset_game [simp]: "best_score (reset_game tx ty g) = best_score g"
  by (simp add: reset_game_def)

lemma best_score_handle_event [simp]:
  "best_score (snd (handle_event e rg)) = best_score (snd rg)"
  by (cases e; cases rg)
     (simp_all add: mouse_button_down_def mouse_button_up_def mouse_motion_def Let_def)

lemma best_score_fold_handle_event [simp]:
  "best_score (snd (fold handle_event evs rg)) = best_score (snd rg)"
  by (induction evs arbitrary: rg) simp_all

lemma best_score_run: "best_score g \<le> best_score (run frames g)"
proof (induction frames arbitrary: g)
  case Nil
  show ?case by simp
next
  case (Cons evs frames)
  obtain running g1 where f: "fold handle_event evs (True, g) = (running, g1)"
    by (cases "fold handle_event evs (True, g)")
  have "best_score (snd (fold handle_event evs (True, g))) = best_score g" by simp
  with f have 1: "best_score g1 = best_score g" by simp
  have 2: "best_score g1 \<le> best_score (frame_update g1)" by (rule best_score_frame_update)
  have 3: "best_score (frame_update g1) \<le> best_score (run frames (frame_update g1))"
    by (rule Cons.IH)
  show ?case using f 1 2 3 by (simp add: Let_def)
qed

section \<open>The triangle area\<close>

lemma calculate_triangle_area_example:
  "calculate_triangle_area example_game =
     (60000, example_game\<lparr>triangle := Some [(100, 100), (400, 100), (100, 500)]\<rparr>)"
  by (simp add: calculate_triangle_area_def example_game_def Ball_init_def Let_def
        sqrt_numeral_facts)





section \<open>The target position\<close>

lemma spawn_positions_eq:
  "spawn_positions g =
     {(real_of_int tx, real_of_int ty) | tx ty.
        BALL_RADIUS * 2 \<le> tx \<and> tx \<le> SCREEN_WIDTH - BALL_RADIUS * 2 \<and>
        BALL_RADIUS * 2 \<le> ty \<and> ty \<le> BOARD_HEIGHT - BALL_RADIUS * 2}"
  by (auto simp add: spawn_positions_def reset_game_outcomes_def reset_game_draws_def
        randint_def reset_game_def Ball_init_def image_iff)

section \<open>The velocity response of a collision\<close>

lemma collide_with_momentum:
  "vx (fst (snd (collide_with a b))) + vx (snd (snd (collide_with a b))) = vx a + vx b \<and>
   vy (fst (snd (collide_with a b))) + vy (snd (snd (collide_with a b))) = vy a + vy b"
  by (simp add: collide_with_def Let_def)

lemma collide_with_response:
  assumes d: "0 < sqrt ((x b - x a)\<^sup>2 + (y b - y a)\<^sup>2)"
      and c: "sqrt ((x b - x a)\<^sup>2 + (y b - y a)\<^sup>2) < real_of_int (BALL_RADIUS * 2)"
  shows "normal_component a b (fst (snd (collide_with a b))) =
           normal_component a b a
           + (1 + RESTITUTION) * (normal_component a b b - normal_component a b a)"
    and "normal_component a b (snd (snd (collide_with a b))) =
           normal_component a b b
           - (1 + RESTITUTION) * (normal_component a b b - normal_component a b a)"
proof -
  define dist where "dist = sqrt ((x b - x a)\<^sup>2 + (y b - y a)\<^sup>2)"
  define nx where "nx = (x b - x a) / dist"
  define ny where "ny = (y b - y a) / dist"
  have dpos: "0 < dist" using d by (simp add: dist_def)
  have sq: "dist\<^sup>2 = (x b - x a)\<^sup>2 + (y b - y a)\<^sup>2"
    unfolding dist_def by (rule real_sqrt_pow2) simp
  have "nx * nx + ny * ny = ((x b - x a)\<^sup>2 + (y b - y a)\<^sup>2) / dist\<^sup>2"
    by (simp add: nx_def ny_def power2_eq_square add_divide_distrib)
  also have "\<dots> = 1" using dpos by (simp add: sq [symmetric])
  finally have unit: "nx * nx + ny * ny = 1" .
  define imp where "imp = (1 + RESTITUTION) * ((vx b - vx a) * nx + (vy b - vy a) * ny)"
  have va: "vx (fst (snd (collide_with a b))) = vx a + imp * nx"
           "vy (fst (snd (collide_with a b))) = vy a + imp * ny"
    and vb: "vx (snd (snd (collide_with a b))) = vx b - imp * nx"
            "vy (snd (snd (collide_with a b))) = vy b - imp * ny"
    using d c unfolding collide_with_def Let_def imp_def nx_def ny_def dist_def
    by simp_all
  have nc: "normal_component a b k = vx k * nx + vy k * ny" for k
    by (simp add: normal_component_def Let_def nx_def ny_def dist_def)
  have "(vx a + imp * nx) * nx + (vy a + imp * ny) * ny =
        vx a * nx + vy a * ny + imp * (nx * nx + ny * ny)"
    by (simp add: algebra_simps)
  then show "normal_component a b (fst (snd (collide_with a b))) =
           normal_component a b a
           + (1 + RESTITUTION) * (normal_component a b b - normal_component a b a)"
    unfolding nc va unit by (simp add: imp_def algebra_simps)
  have "(vx b - imp * nx) * nx + (vy b - imp * ny) * ny =
        vx b * nx + vy b * ny - imp * (nx * nx + ny * ny)"
    by (simp add: algebra_simps)
  then show "normal_component a b (snd (snd (collide_with a b))) =
           normal_component a b b
           - (1 + RESTITUTION) * (normal_component a b b - normal_component a b a)"
    unfolding nc vb unit by (simp add: imp_def algebra_simps)
qed

lemma impulse_energy_identity:
  fixes p q e :: real
  shows "((p + (1 + e) * (q - p))\<^sup>2 + (q - (1 + e) * (q - p))\<^sup>2) / 2 =
         (p\<^sup>2 + q\<^sup>2) / 2 + e * (1 + e) * (q - p)\<^sup>2"
  by (simp add: power2_eq_square field_simps)

lemma collide_with_normal_energy:
  assumes d: "0 < sqrt ((x b - x a)\<^sup>2 + (y b - y a)\<^sup>2)"
      and c: "sqrt ((x b - x a)\<^sup>2 + (y b - y a)\<^sup>2) < real_of_int (BALL_RADIUS * 2)"
  shows "normal_energy a b (fst (snd (collide_with a b))) (snd (snd (collide_with a b))) =
           normal_energy a b a b
           + RESTITUTION * (1 + RESTITUTION) * (normal_component a b b - normal_component a b a)\<^sup>2"
  unfolding normal_energy_def collide_with_response [OF d c]
  by (rule impulse_energy_identity)

lemma collide_with_gains_energy:
  assumes d: "0 < sqrt ((x b - x a)\<^sup>2 + (y b - y a)\<^sup>2)"
      and c: "sqrt ((x b - x a)\<^sup>2 + (y b - y a)\<^sup>2) < real_of_int (BALL_RADIUS * 2)"
      and n: "normal_component a b b \<noteq> normal_component a b a"
  shows "normal_energy a b a b
         < normal_energy a b (fst (snd (collide_with a b))) (snd (snd (collide_with a b)))"
proof -
  from n have "0 < (normal_component a b b - normal_component a b a)\<^sup>2" by simp
  then have "0 < RESTITUTION * (1 + RESTITUTION) * (normal_component a b b - normal_component a b a)\<^sup>2"
    by (simp add: RESTITUTION_def)
  then show ?thesis
    unfolding collide_with_normal_energy [OF d c] by simp
qed

section \<open>Every ball of every reachable game satisfies the invariant\<close>

lemma get_ball_inv:
  "game_inv g \<Longrightarrow> ref_in_range (length (player_balls g)) r \<Longrightarrow> ball_inv (get_ball g r)"
  by (cases r) (auto simp add: game_inv_def)

lemma put_ball_inv:
  "game_inv g \<Longrightarrow> ball_inv b \<Longrightarrow> game_inv (put_ball r b g)"
  by (cases r) (auto simp add: game_inv_def dest: set_update_subset_insert [THEN subsetD])

lemma length_put_ball [simp]:
  "length (player_balls (put_ball r b g)) = length (player_balls g)"
  by (cases r) simp_all

lemma exec_op_inv:
  assumes inv: "game_inv g" and ok: "op_in_range (length (player_balls g)) ob"
  shows "game_inv (exec_op ob g)"
proof (cases ob)
  case (Update r)
  with ok have "ball_inv (get_ball g r)" using inv by (simp add: get_ball_inv)
  then have "ball_inv (update (get_ball g r))" by (rule ball_inv_update)
  with inv show ?thesis unfolding Update by (simp add: do_update_def put_ball_inv)
next
  case (Collide r s)
  with ok inv have a: "ball_inv (get_ball g r)" and b: "ball_inv (get_ball g s)"
    by (simp_all add: get_ball_inv)
  from ball_inv_collide_with [OF a b] inv show ?thesis
    unfolding Collide exec_op.simps do_collide_def Let_def case_prod_beta
    by (intro put_ball_inv) simp_all
qed

lemma length_exec_op [simp]:
  "length (player_balls (exec_op ob g)) = length (player_balls g)"
  by (cases ob) (simp_all add: do_update_def do_collide_def Let_def case_prod_beta)

lemma fold_exec_op_inv:
  "game_inv g \<Longrightarrow> \<forall>ob\<in>set obs. op_in_range (length (player_balls g)) ob \<Longrightarrow>
   game_inv (fold exec_op obs g)"
proof (induction obs arbitrary: g)
  case Nil
  then show ?case by simp
next
  case (Cons ob obs)
  from Cons.prems have "game_inv (exec_op ob g)" by (simp add: exec_op_inv)
  moreover from Cons.prems
  have "\<forall>ob'\<in>set obs. op_in_range (length (player_balls (exec_op ob g))) ob'" by simp
  ultimately have "game_inv (fold exec_op obs (exec_op ob g))" by (rule Cons.IH)
  then show ?case by simp
qed

lemma update_balls_ops_in_range: "\<forall>ob\<in>set (update_balls_ops n). op_in_range n ob"
  by (auto simp add: update_balls_ops_def split: if_splits)

lemma update_balls_inv: "game_inv g \<Longrightarrow> game_inv (update_balls g)"
  unfolding update_balls_runs_ops
  by (rule fold_exec_op_inv) (simp_all add: update_balls_ops_in_range)

lemma calculate_triangle_area_inv:
  "game_inv (snd (calculate_triangle_area g)) = game_inv g"
  by (simp add: calculate_triangle_area_def Let_def game_inv_def)

lemma frame_update_inv: "game_inv g \<Longrightarrow> game_inv (frame_update g)"
proof -
  assume "game_inv g"
  then have u: "game_inv (update_balls g)" by (rule update_balls_inv)
  have "game_inv (h\<lparr>all_balls_stopped := v\<rparr>) = game_inv h" for h v
    by (simp add: game_inv_def)
  note s = this
  have "game_inv (snd (calculate_triangle_area ((update_balls g)\<lparr>all_balls_stopped := v\<rparr>)))" for v
    using u by (simp add: calculate_triangle_area_inv s)
  then show ?thesis
    using \<open>game_inv g\<close> u
    by (simp add: frame_update_def Let_def case_prod_beta) (simp add: game_inv_def)
qed

lemma reset_game_inv: "game_inv (reset_game tx ty g)"
  by (simp add: game_inv_def reset_game_def ball_inv_init)

lemma mouse_button_down_inv: "game_inv g \<Longrightarrow> game_inv (mouse_button_down button mouse_pos g)"
  by (simp add: mouse_button_down_def game_inv_def Let_def ball_inv_init)

lemma mouse_button_up_inv:
  assumes "game_inv g"
  shows "game_inv (mouse_button_up button g)"
proof (cases "button = 1 \<and> placing_ball g \<and> player_balls g \<noteq> []")
  case False
  with assms show ?thesis by (auto simp add: mouse_button_up_def game_inv_def Let_def)
next
  case True
  let ?k = "length (player_balls g) - 1"
  let ?b = "move_towards (x (target_ball g)) (y (target_ball g)) INITIAL_SPEED
              ((player_balls g ! ?k)\<lparr>color := PLAYER_BALL_COLOR\<rparr>)"
  from True have "player_balls g ! ?k \<in> set (player_balls g)" by simp
  with assms have "ball_inv (player_balls g ! ?k)" by (simp add: game_inv_def)
  then have "ball_inv ((player_balls g ! ?k)\<lparr>color := PLAYER_BALL_COLOR\<rparr>)"
    by (simp add: ball_inv_def)
  then have "ball_inv ?b" by (rule ball_inv_move_towards)
  with assms have "\<forall>b\<in>set ((player_balls g)[?k := ?b]). ball_inv b"
    by (auto simp add: game_inv_def dest: set_update_subset_insert [THEN subsetD])
  with assms True show ?thesis
    by (simp add: mouse_button_up_def game_inv_def Let_def)
qed

lemma mouse_motion_inv: "game_inv (mouse_motion mouse_pos g) = game_inv g"
  by (simp add: mouse_motion_def game_inv_def)

lemma handle_event_inv: "game_inv (snd rg) \<Longrightarrow> game_inv (snd (handle_event e rg))"
  by (cases e; cases rg)
     (simp_all add: reset_game_inv mouse_button_down_inv mouse_button_up_inv mouse_motion_inv)

lemma fold_handle_event_inv:
  "game_inv (snd rg) \<Longrightarrow> game_inv (snd (fold handle_event evs rg))"
  by (induction evs arbitrary: rg) (simp_all add: handle_event_inv)

lemma run_inv: "game_inv g \<Longrightarrow> game_inv (run frames g)"
proof (induction frames arbitrary: g)
  case Nil
  then show ?case by simp
next
  case (Cons evs frames)
  obtain running g1 where f: "fold handle_event evs (True, g) = (running, g1)"
    by (cases "fold handle_event evs (True, g)")
  from Cons.prems have "game_inv (snd (fold handle_event evs (True, g)))"
    by (intro fold_handle_event_inv) simp
  with f have "game_inv g1" by simp
  then have 2: "game_inv (frame_update g1)" by (rule frame_update_inv)
  then have "game_inv (run frames (frame_update g1))" by (rule Cons.IH)
  with f 2 show ?case by (simp add: Let_def)
qed

lemma Game_init_inv: "game_inv (Game_init tx ty)"
  by (simp add: Game_init_def reset_game_inv)

lemma run_keeps_ball_inv:
  "ball_inv (target_ball (run frames (Game_init tx ty))) \<and>
   (\<forall>b\<in>set (player_balls (run frames (Game_init tx ty))). ball_inv b)"
  using run_inv [OF Game_init_inv] by (simp add: game_inv_def)

section \<open>A launched ball reaches the target\<close>

lemma launched_game_eq:
  "launched_game =
     \<lparr>best_score = 0, target_ball = object_ball,
      player_balls = [\<lparr>x = 78, y = 100, vx = 22, vy = 0, color = PLAYER_BALL_COLOR,
                        is_target = False, moving = True\<rparr>],
      balls_left = 1, placing_ball = False, all_balls_stopped = False, game_over = False,
      current_score = 0, triangle = None, temp_ball = None\<rparr>"
  by (simp add: launched_game_def mouse_button_up_def mouse_button_down_def Game_init_def
        reset_game_def all_stopped_def can_place_def too_close_def move_towards_def
        Ball_init_def object_ball_def Let_def BALL_RADIUS_def BOARD_HEIGHT_def INITIAL_SPEED_def
        sqrt_numeral_facts)

lemma sqrt_launch_speed: "sqrt (1185921 / 2500) = 1089 / 50"
  by (rule real_sqrt_unique) (simp_all add: power2_eq_square)

lemma launched_game_integrated:
  "do_update (Player 0) (do_update Target launched_game) =
     launched_game\<lparr>player_balls := [cue_ball]\<rparr>"
  by (simp add: launched_game_eq sqrt_launch_speed do_update_def update_def object_ball_def Ball_init_def
        cue_ball_def Let_def BALL_RADIUS_def SCREEN_WIDTH_def BOARD_HEIGHT_def FRICTION_def
        MIN_VELOCITY_def power2_eq_square)

lemma update_balls_ops_one:
  "update_balls_ops 1 = [Update Target, Update (Player 0), Collide (Player 0) Target]"
  by (simp add: update_balls_ops_def)

lemma update_balls_launched_game:
  "update_balls launched_game =
     do_collide (Player 0) Target (launched_game\<lparr>player_balls := [cue_ball]\<rparr>)"
proof -
  have "length (player_balls launched_game) = 1" by (simp add: launched_game_eq)
  then have "update_balls launched_game = fold exec_op (update_balls_ops 1) launched_game"
    by (simp add: update_balls_runs_ops)
  also have "\<dots> = do_collide (Player 0) Target
                       (do_update (Player 0) (do_update Target launched_game))"
    unfolding update_balls_ops_one by simp
  finally show ?thesis by (simp only: launched_game_integrated)
qed

lemma collide_with_cue_object:
  "collide_with cue_ball object_ball =
     (True, cue_ball\<lparr>x := 95, vx := - (3267 / 250)\<rparr>,
            object_ball\<lparr>x := 125, vx := 4356 / 125, moving := True\<rparr>)"
  by (simp add: collide_with_def cue_ball_def object_ball_def Ball_init_def Let_def
        BALL_RADIUS_def RESTITUTION_def sqrt_numeral_facts)

lemma update_balls_launched_game_eq:
  "update_balls launched_game =
     launched_game\<lparr>target_ball := object_ball\<lparr>x := 125, vx := 4356 / 125, moving := True\<rparr>,
                   player_balls := [cue_ball\<lparr>x := 95, vx := - (3267 / 250)\<rparr>]\<rparr>"
  unfolding update_balls_launched_game
  by (simp add: do_collide_def collide_with_cue_object launched_game_eq)

lemma frame_update_launched_game: "frame_update launched_game = after_first_collision"
proof -
  have "\<not> all_balls_stopped launched_game" by (simp add: launched_game_eq)
  moreover have "\<not> all_stopped (update_balls launched_game)"
    unfolding update_balls_launched_game_eq by (simp add: all_stopped_def)
  ultimately have "frame_update launched_game =
      (update_balls launched_game)\<lparr>all_balls_stopped := False\<rparr>"
    by (simp add: frame_update_def Let_def)
  then show ?thesis
    unfolding update_balls_launched_game_eq
    by (simp add: launched_game_eq after_first_collision_def)
qed

lemma run_first_frames: "run first_frames (Game_init 120 100) = after_first_collision"
proof -
  let ?placed = "mouse_button_down 1 (78, 100) (Game_init 120 100)"
  have "all_balls_stopped ?placed"
    by (simp add: mouse_button_down_def Game_init_def reset_game_def Let_def)
  then have 1: "frame_update ?placed = ?placed" by (simp add: frame_update_def)
  have 2: "mouse_button_up 1 ?placed = launched_game" by (simp add: launched_game_def)
  show ?thesis
    unfolding first_frames_def
    by (simp add: 1 2 frame_update_launched_game)
qed

section \<open>The tick that ends a round\<close>

lemma update_balls_settled_game: "update_balls settled_game = settled_game"
proof -
  have "length (player_balls settled_game) = 2"
    by (simp add: settled_game_def example_game_def)
  then have "update_balls settled_game = fold exec_op (update_balls_ops 2) settled_game"
    by (simp add: update_balls_runs_ops)
  also have "\<dots> = settled_game"
    unfolding update_balls_ops_two
    by (simp add: settled_game_def example_game_def do_update_def do_collide_def update_def
          collide_with_def Ball_init_def Let_def BALL_RADIUS_def sqrt_numeral_facts)
  finally show ?thesis .
qed

lemma frame_update_settled_game:
  "frame_update settled_game =
     example_game\<lparr>best_score := 60000, game_over := True, current_score := 60000,
                   triangle := Some [(100, 100), (400, 100), (100, 500)]\<rparr>"
proof -
  have a: "all_stopped settled_game"
    by (simp add: all_stopped_def settled_game_def example_game_def Ball_init_def)
  have b: "settled_game\<lparr>all_balls_stopped := True\<rparr> = example_game"
    by (simp add: settled_game_def example_game_def)
  have c: "\<not> all_balls_stopped settled_game \<and> balls_left settled_game = 0"
    by (simp add: settled_game_def example_game_def)
  show ?thesis
    using a c
    by (simp add: frame_update_def update_balls_settled_game Let_def b
          calculate_triangle_area_example) (simp add: example_game_def)
qed

section \<open>The claims\<close>

text \<open>
  C10. A ball at rest has zero velocity (\<open>ball_inv\<close>): the constructor establishes it;
  \<^verbatim>\<open>update\<close> keeps it and zeroes both velocity components in the step in which it clears
  the flag; \<^verbatim>\<open>move_towards\<close> keeps it; \<^verbatim>\<open>collide_with\<close> keeps it for both balls. So it
  holds for the target and for every player ball of every game the main loop reaches.
\<close>

theorem ball_rest_invariant:
  "ball_inv (Ball_init px py c t) \<and>
   (ball_inv b \<longrightarrow> ball_inv (update b)) \<and>
   (moving b \<and> \<not> moving (update b) \<longrightarrow> vx (update b) = 0 \<and> vy (update b) = 0) \<and>
   (ball_inv b \<longrightarrow> ball_inv (move_towards tx ty sp b)) \<and>
   (ball_inv a \<and> ball_inv b \<longrightarrow>
      ball_inv (fst (snd (collide_with a b))) \<and> ball_inv (snd (snd (collide_with a b)))) \<and>
   ball_inv (target_ball (run frames (Game_init target_x target_y))) \<and>
   (\<forall>p\<in>set (player_balls (run frames (Game_init target_x target_y))). ball_inv p)"
proof -
  have "vx (update b) = 0 \<and> vy (update b) = 0" if "moving b" and "\<not> moving (update b)"
    using that ball_inv_update [of b] by (simp add: ball_inv_def)
  then show ?thesis
    using ball_inv_init ball_inv_update ball_inv_move_towards ball_inv_collide_with
      run_keeps_ball_inv [of frames target_x target_y]
    by blast
qed

theorem ball_rest_invariant_witness:
  "ball_inv (Ball_init 100 200 PLAYER_BALL_COLOR False) \<and>
   ball_inv slow_ball \<and> ball_inv (update slow_ball) \<and>
   moving slow_ball \<and> \<not> moving (update slow_ball) \<and>
   vx (update slow_ball) = 0 \<and> vy (update slow_ball) = 0 \<and>
   ball_inv (move_towards 400 300 INITIAL_SPEED slow_ball) \<and>
   ball_inv (Ball_init 110 200 TARGET_BALL_COLOR True) \<and>
   ball_inv (fst (snd (collide_with (Ball_init 110 200 TARGET_BALL_COLOR True) slow_ball))) \<and>
   ball_inv (snd (snd (collide_with (Ball_init 110 200 TARGET_BALL_COLOR True) slow_ball))) \<and>
   cue_ball\<lparr>x := 95, vx := - (3267 / 250)\<rparr>
     \<in> set (player_balls (run first_frames (Game_init 120 100))) \<and>
   ball_inv (cue_ball\<lparr>x := 95, vx := - (3267 / 250)\<rparr>)"
proof -
  have 1: "ball_inv slow_ball" by (simp add: ball_inv_def slow_ball_def)
  have 2: "moving slow_ball \<and> \<not> moving (update slow_ball)"
    by (simp add: update_slow_ball) (simp add: slow_ball_def)
  have 3: "ball_inv (Ball_init 110 200 TARGET_BALL_COLOR True)"
    by (simp add: ball_inv_def Ball_init_def)
  have 4: "cue_ball\<lparr>x := 95, vx := - (3267 / 250)\<rparr>
             \<in> set (player_balls (run first_frames (Game_init 120 100)))"
    by (simp add: run_first_frames after_first_collision_def)
  show ?thesis
    using 1 2 3 4
      ball_rest_invariant [where px = 100 and py = 200 and c = PLAYER_BALL_COLOR and t = False
        and b = slow_ball and tx = 400 and ty = 300 and sp = INITIAL_SPEED
        and a = "Ball_init 110 200 TARGET_BALL_COLOR True"
        and frames = first_frames and target_x = 120 and target_y = 100]
    by simp
qed

text \<open>
  C5. After one call of \<^verbatim>\<open>update\<close> a ball never has the moving flag set and a speed
  below \<open>MIN_VELOCITY\<close>. For a ball that satisfies the representation invariant
  \<open>ball_inv\<close>, and so for the target and every player ball of every game the main loop
  reaches, the speed after the call is either exactly 0 with the flag cleared, or at
  least \<open>MIN_VELOCITY\<close> with the flag set.
\<close>

theorem update_speed_zero_or_above_threshold:
  "\<not> (moving (update b) \<and> speed_of (update b) < MIN_VELOCITY) \<and>
   (ball_inv b \<or> b = target_ball (run frames (Game_init target_x target_y)) \<or>
    b \<in> set (player_balls (run frames (Game_init target_x target_y))) \<longrightarrow>
      (speed_of (update b) = 0 \<and> \<not> moving (update b)) \<or>
      (MIN_VELOCITY \<le> speed_of (update b) \<and> moving (update b)))"
proof -
  have "\<not> (moving (update b) \<and> speed_of (update b) < MIN_VELOCITY)"
    using update_moving_speed [of b] by auto
  moreover have zero: "speed_of (update b) = 0" if "ball_inv b" and "\<not> moving (update b)"
    using that ball_inv_update [of b] by (simp add: ball_inv_def speed_of_def)
  moreover have "ball_inv b"
    if "b = target_ball (run frames (Game_init target_x target_y)) \<or>
        b \<in> set (player_balls (run frames (Game_init target_x target_y)))"
    using that run_keeps_ball_inv [of frames target_x target_y] by blast
  ultimately show ?thesis
    using update_moving_speed [of b] by blast
qed

theorem update_speed_zero_or_above_threshold_witness:
  "ball_inv slow_ball \<and> speed_of (update slow_ball) = 0 \<and> \<not> moving (update slow_ball) \<and>
   cue_ball\<lparr>x := 95, vx := - (3267 / 250)\<rparr>
     \<in> set (player_balls (run first_frames (Game_init 120 100))) \<and>
   ((speed_of (update (cue_ball\<lparr>x := 95, vx := - (3267 / 250)\<rparr>)) = 0 \<and>
     \<not> moving (update (cue_ball\<lparr>x := 95, vx := - (3267 / 250)\<rparr>))) \<or>
    (MIN_VELOCITY \<le> speed_of (update (cue_ball\<lparr>x := 95, vx := - (3267 / 250)\<rparr>)) \<and>
     moving (update (cue_ball\<lparr>x := 95, vx := - (3267 / 250)\<rparr>))))"
proof -
  have 1: "ball_inv slow_ball" by (simp add: ball_inv_def slow_ball_def)
  have 2: "\<not> moving (update slow_ball)" by (simp add: update_slow_ball)
  have 3: "cue_ball\<lparr>x := 95, vx := - (3267 / 250)\<rparr>
             \<in> set (player_balls (run first_frames (Game_init 120 100)))"
    by (simp add: run_first_frames after_first_collision_def)
  show ?thesis
    using 1 2 3 update_speed_zero_or_above_threshold [of slow_ball]
      update_speed_zero_or_above_threshold
        [of "cue_ball\<lparr>x := 95, vx := - (3267 / 250)\<rparr>" first_frames 120 100]
    by blast
qed

text \<open>
  C3. No arithmetic fault: with every \<^verbatim>\<open>math.sqrt\<close> and every division checked,
  \<^verbatim>\<open>update\<close>, \<^verbatim>\<open>move_towards\<close>, \<^verbatim>\<open>collide_with\<close> and \<^verbatim>\<open>calculate_triangle_area\<close> return
  normally on every input, with the results of the unchecked definitions. Two balls with
  coincident centres collide (True is returned) and neither is changed; a launch towards
  the ball's own position changes nothing; the area is 0 unless
  \<open>s > 0\<close>, \<open>s > a\<close>, \<open>s > b\<close> and \<open>s > c\<close>, and when they hold the radicand of Heron's
  formula is positive.
\<close>

theorem no_arithmetic_fault:
  "update_chk b = Inr (update b) \<and>
   move_towards_chk tx ty sp b = Inr (move_towards tx ty sp b) \<and>
   collide_with_chk a b = Inr (collide_with a b) \<and>
   calculate_triangle_area_chk g = Inr (calculate_triangle_area g) \<and>
   (x a = x b \<and> y a = y b \<longrightarrow> collide_with a b = (True, a, b)) \<and>
   move_towards (x b) (y b) sp b = b \<and>
   (2 \<le> length (player_balls g) \<longrightarrow>
      (let p1 = (x (target_ball g), y (target_ball g));
           p2 = (x (player_balls g ! 0), y (player_balls g ! 0));
           p3 = (x (player_balls g ! 1), y (player_balls g ! 1));
           sa = sqrt ((fst p2 - fst p1)\<^sup>2 + (snd p2 - snd p1)\<^sup>2);
           sb = sqrt ((fst p3 - fst p2)\<^sup>2 + (snd p3 - snd p2)\<^sup>2);
           sc = sqrt ((fst p1 - fst p3)\<^sup>2 + (snd p1 - snd p3)\<^sup>2);
           s = (sa + sb + sc) / 2
       in if s > 0 \<and> s > sa \<and> s > sb \<and> s > sc
          then 0 < s * (s - sa) * (s - sb) * (s - sc) \<and>
               fst (calculate_triangle_area g) = sqrt (s * (s - sa) * (s - sb) * (s - sc))
          else fst (calculate_triangle_area g) = 0))"
proof -
  have "2 \<le> length (player_balls g) \<longrightarrow>
      (let p1 = (x (target_ball g), y (target_ball g));
           p2 = (x (player_balls g ! 0), y (player_balls g ! 0));
           p3 = (x (player_balls g ! 1), y (player_balls g ! 1));
           sa = sqrt ((fst p2 - fst p1)\<^sup>2 + (snd p2 - snd p1)\<^sup>2);
           sb = sqrt ((fst p3 - fst p2)\<^sup>2 + (snd p3 - snd p2)\<^sup>2);
           sc = sqrt ((fst p1 - fst p3)\<^sup>2 + (snd p1 - snd p3)\<^sup>2);
           s = (sa + sb + sc) / 2
       in if s > 0 \<and> s > sa \<and> s > sb \<and> s > sc
          then 0 < s * (s - sa) * (s - sb) * (s - sc) \<and>
               fst (calculate_triangle_area g) = sqrt (s * (s - sa) * (s - sb) * (s - sc))
          else fst (calculate_triangle_area g) = 0)"
    unfolding calculate_triangle_area_def Let_def
    by (auto intro!: heron_radicand_pos)
  then show ?thesis
    using update_chk_eq move_towards_chk_eq collide_with_chk_eq calculate_triangle_area_chk_eq
      collide_with_coincident move_towards_own_position
    by blast
qed

theorem no_arithmetic_fault_witness:
  "x (Ball_init 100 200 TARGET_BALL_COLOR True) = x slow_ball \<and>
   y (Ball_init 100 200 TARGET_BALL_COLOR True) = y slow_ball \<and>
   collide_with_chk (Ball_init 100 200 TARGET_BALL_COLOR True) slow_ball =
     Inr (True, Ball_init 100 200 TARGET_BALL_COLOR True, slow_ball) \<and>
   2 \<le> length (player_balls example_game) \<and>
   calculate_triangle_area_chk example_game = Inr (calculate_triangle_area example_game)"
proof -
  have 1: "x (Ball_init 100 200 TARGET_BALL_COLOR True) = x slow_ball \<and>
           y (Ball_init 100 200 TARGET_BALL_COLOR True) = y slow_ball"
    by (simp add: Ball_init_def slow_ball_def)
  have 2: "2 \<le> length (player_balls example_game)"
    by (simp add: example_game_def)
  show ?thesis
    using 1 2
      no_arithmetic_fault [where a = "Ball_init 100 200 TARGET_BALL_COLOR True"
        and b = slow_ball and g = example_game]
    by simp
qed

text \<open>
  C7. A moving ball that is only integrated (repeated \<^verbatim>\<open>update\<close>, no collision) comes to
  rest after finitely many ticks: there is a tick \<open>n\<close> at which the flag is cleared and
  the velocity is zero (so the speed is below \<open>MIN_VELOCITY\<close>), the ball stays as it is
  from then on, and at every earlier tick \<open>k\<close> it is moving with a speed of at most
  \<open>FRICTION ^ k\<close> times the initial speed.
\<close>

theorem settling_terminates:
  assumes "moving b"
  shows "\<exists>n. \<not> moving ((update ^^ n) b) \<and>
            vx ((update ^^ n) b) = 0 \<and> vy ((update ^^ n) b) = 0 \<and>
            speed_of ((update ^^ n) b) < MIN_VELOCITY \<and>
            (\<forall>m\<ge>n. (update ^^ m) b = (update ^^ n) b) \<and>
            (\<forall>k<n. moving ((update ^^ k) b) \<and>
                    speed_of ((update ^^ k) b) \<le> FRICTION ^ k * speed_of b)"
proof -
  define n where "n = (LEAST n. \<not> moving ((update ^^ n) b))"
  have rest: "\<not> moving ((update ^^ n) b)"
    unfolding n_def using settles by (rule LeastI_ex)
  have before: "moving ((update ^^ k) b)" if "k < n" for k
    using that not_less_Least unfolding n_def by blast
  from assms have "ball_inv b" by (simp add: ball_inv_def)
  then have "ball_inv ((update ^^ n) b)" by (rule funpow_update_inv)
  with rest have v0: "vx ((update ^^ n) b) = 0 \<and> vy ((update ^^ n) b) = 0"
    by (simp add: ball_inv_def)
  have stay: "(update ^^ m) b = (update ^^ n) b" if "n \<le> m" for m
  proof -
    from that obtain k where "m = k + n" by (metis le_add_diff_inverse2)
    then show ?thesis using rest by (simp add: funpow_add funpow_update_at_rest)
  qed
  from v0 have "speed_of ((update ^^ n) b) < MIN_VELOCITY"
    by (simp add: speed_of_def MIN_VELOCITY_def)
  with rest v0 stay before funpow_update_speed show ?thesis by blast
qed

theorem settling_terminates_witness:
  "moving slow_ball \<and>
   (\<exists>n. \<not> moving ((update ^^ n) slow_ball) \<and>
        vx ((update ^^ n) slow_ball) = 0 \<and> vy ((update ^^ n) slow_ball) = 0 \<and>
        speed_of ((update ^^ n) slow_ball) < MIN_VELOCITY \<and>
        (\<forall>m\<ge>n. (update ^^ m) slow_ball = (update ^^ n) slow_ball) \<and>
        (\<forall>k<n. moving ((update ^^ k) slow_ball) \<and>
                speed_of ((update ^^ k) slow_ball) \<le> FRICTION ^ k * speed_of slow_ball))"
proof -
  have 1: "moving slow_ball" by (simp add: slow_ball_def)
  show ?thesis
    using 1 settling_terminates [OF 1] by simp
qed




text \<open>
  C4. A left-button press at \<open>mouse_pos\<close> places a ball exactly when the round accepts
  a placement (all balls at rest, a ball left, the game not over), the pointer is not
  below the board (\<open>y \<le> BOARD_HEIGHT\<close>) and neither the target nor any player ball is
  closer than two radii. An accepted press appends one ball at rest at the pointer
  position, decrements \<^verbatim>\<open>balls_left\<close> and sets \<^verbatim>\<open>placing_ball\<close>; a rejected press leaves
  the whole game as it is.
\<close>

theorem placement_accepted_iff:
  "mouse_button_down 1 mouse_pos g =
     (if all_stopped g \<and> balls_left g > 0 \<and> \<not> game_over g \<and>
         snd mouse_pos \<le> BOARD_HEIGHT \<and>
         \<not> too_close mouse_pos (target_ball g) \<and>
         (\<forall>b\<in>set (player_balls g). \<not> too_close mouse_pos b)
      then g\<lparr>placing_ball := True,
             player_balls := player_balls g @
               [Ball_init (real_of_int (fst mouse_pos)) (real_of_int (snd mouse_pos))
                  PLAYER_BALL_COLOR False],
             balls_left := balls_left g - 1\<rparr>
      else g) \<and>
   (mouse_button_down 1 mouse_pos g \<noteq> g \<longleftrightarrow>
      all_stopped g \<and> balls_left g > 0 \<and> \<not> game_over g \<and>
      snd mouse_pos \<le> BOARD_HEIGHT \<and>
      \<not> too_close mouse_pos (target_ball g) \<and>
      (\<forall>b\<in>set (player_balls g). \<not> too_close mouse_pos b)) \<and>
   (too_close mouse_pos b \<longleftrightarrow>
      sqrt ((real_of_int (fst mouse_pos) - x b)\<^sup>2 + (real_of_int (snd mouse_pos) - y b)\<^sup>2)
        < 2 * real_of_int BALL_RADIUS)"
proof -
  let ?ok = "all_stopped g \<and> balls_left g > 0 \<and> \<not> game_over g \<and>
      snd mouse_pos \<le> BOARD_HEIGHT \<and>
      \<not> too_close mouse_pos (target_ball g) \<and>
      (\<forall>b\<in>set (player_balls g). \<not> too_close mouse_pos b)"
  let ?g' = "g\<lparr>placing_ball := True,
             player_balls := player_balls g @
               [Ball_init (real_of_int (fst mouse_pos)) (real_of_int (snd mouse_pos))
                  PLAYER_BALL_COLOR False],
             balls_left := balls_left g - 1\<rparr>"
  have eq: "mouse_button_down 1 mouse_pos g = (if ?ok then ?g' else g)"
    by (simp add: mouse_button_down_def can_place_iff Let_def)
  have "length (player_balls ?g') \<noteq> length (player_balls g)" by simp
  then have ne: "?g' \<noteq> g" by metis
  have "mouse_button_down 1 mouse_pos g \<noteq> g \<longleftrightarrow> ?ok"
    unfolding eq using ne by simp
  moreover have "too_close mouse_pos b \<longleftrightarrow>
      sqrt ((real_of_int (fst mouse_pos) - x b)\<^sup>2 + (real_of_int (snd mouse_pos) - y b)\<^sup>2)
        < 2 * real_of_int BALL_RADIUS"
    by (simp add: too_close_def mult.commute)
  ultimately show ?thesis using eq by blast
qed

theorem placement_accepted_iff_witness:
  "mouse_button_down 1 (78, 100) (Game_init 120 100) =
     (Game_init 120 100)\<lparr>placing_ball := True,
        player_balls := [Ball_init 78 100 PLAYER_BALL_COLOR False],
        balls_left := 1\<rparr> \<and>
   mouse_button_down 1 (110, 100) (Game_init 120 100) = Game_init 120 100"
proof -
  have far: "\<not> too_close (78, 100) (target_ball (Game_init 120 100))"
    by (simp add: too_close_def Game_init_def reset_game_def Ball_init_def BALL_RADIUS_def
          sqrt_numeral_facts)
  have "sqrt 100 = 10" by (rule real_sqrt_unique) simp_all
  then have near: "too_close (110, 100) (target_ball (Game_init 120 100))"
    by (simp add: too_close_def Game_init_def reset_game_def Ball_init_def BALL_RADIUS_def)
  have st: "all_stopped (Game_init 120 100) \<and> balls_left (Game_init 120 100) = 2 \<and>
            \<not> game_over (Game_init 120 100) \<and> player_balls (Game_init 120 100) = []"
    by (simp add: all_stopped_def Game_init_def reset_game_def Ball_init_def)
  show ?thesis
    using far near st
      placement_accepted_iff [of "(78, 100)" "Game_init 120 100"]
      placement_accepted_iff [of "(110, 100)" "Game_init 120 100"]
    by (simp add: BOARD_HEIGHT_def)
qed

text \<open>
  C6. The best score never decreases along a run of the main loop, whatever the events.
  The ball update of a frame changes it only on the step that ends the round (the balls
  come to rest with no ball left), where it becomes the maximum of its old value and
  the score just computed and the game is marked over. \<^verbatim>\<open>reset_game\<close> installs a new
  target, empties the player balls, sets \<^verbatim>\<open>balls_left\<close> to 2 and the current score to 0,
  and leaves the best score as it is.
\<close>

theorem best_score_never_decreases:
  "best_score g \<le> best_score (run frames g) \<and>
   best_score (frame_update g) =
     (if \<not> all_balls_stopped g \<and> all_stopped (update_balls g) \<and> balls_left g = 0
      then max (best_score g) (current_score (frame_update g))
      else best_score g) \<and>
   (if \<not> all_balls_stopped g \<and> all_stopped (update_balls g) \<and> balls_left g = 0
    then game_over (frame_update g) \<and>
         current_score (frame_update g) =
           fst (calculate_triangle_area ((update_balls g)\<lparr>all_balls_stopped := True\<rparr>))
    else True) \<and>
   best_score (reset_game target_x target_y g) = best_score g \<and>
   target_ball (reset_game target_x target_y g) =
     Ball_init (real_of_int target_x) (real_of_int target_y) TARGET_BALL_COLOR True \<and>
   player_balls (reset_game target_x target_y g) = [] \<and>
   balls_left (reset_game target_x target_y g) = 2 \<and>
   current_score (reset_game target_x target_y g) = 0"
proof -
  have "best_score (reset_game target_x target_y g) = best_score g \<and>
   target_ball (reset_game target_x target_y g) =
     Ball_init (real_of_int target_x) (real_of_int target_y) TARGET_BALL_COLOR True \<and>
   player_balls (reset_game target_x target_y g) = [] \<and>
   balls_left (reset_game target_x target_y g) = 2 \<and>
   current_score (reset_game target_x target_y g) = 0"
    by (simp add: reset_game_def)
  then show ?thesis
    using best_score_run [of g frames] frame_update_best_score [of g]
      frame_update_finishing [of g]
    by presburger
qed

theorem best_score_never_decreases_witness:
  "\<not> all_balls_stopped settled_game \<and> all_stopped (update_balls settled_game) \<and>
   balls_left settled_game = 0 \<and> best_score settled_game = 0 \<and>
   best_score (frame_update settled_game) = 60000 \<and>
   game_over (frame_update settled_game) \<and>
   best_score (reset_game 400 300 (frame_update settled_game)) = 60000 \<and>
   current_score (reset_game 400 300 (frame_update settled_game)) = 0"
proof -
  have 1: "\<not> all_balls_stopped settled_game \<and> balls_left settled_game = 0 \<and>
           best_score settled_game = 0"
    by (simp add: settled_game_def example_game_def)
  have 2: "all_stopped (update_balls settled_game)"
    unfolding update_balls_settled_game
    by (simp add: all_stopped_def settled_game_def example_game_def Ball_init_def)
  have 3: "current_score (frame_update settled_game) = 60000"
    by (simp add: frame_update_settled_game)
  show ?thesis
    using 1 2 3
      best_score_never_decreases [of settled_game "[]" 400 300]
      best_score_never_decreases [of "frame_update settled_game" "[]" 400 300]
    by simp
qed




text \<open>
  C9, as the code has it. The target positions a reset can produce are exactly the
  points with integer coordinates whose distance to each of the four walls is at least
  two radii: \<open>x\<close> from \<open>2 * BALL_RADIUS\<close> to \<open>SCREEN_WIDTH - 2 * BALL_RADIUS\<close> and
  \<open>y\<close> from \<open>2 * BALL_RADIUS\<close> to \<open>BOARD_HEIGHT - 2 * BALL_RADIUS\<close>.
\<close>

theorem target_spawn_range:
  "spawn_positions g =
     {(real_of_int tx, real_of_int ty) | tx ty.
        BALL_RADIUS * 2 \<le> tx \<and> tx \<le> SCREEN_WIDTH - BALL_RADIUS * 2 \<and>
        BALL_RADIUS * 2 \<le> ty \<and> ty \<le> BOARD_HEIGHT - BALL_RADIUS * 2}"
  by (rule spawn_positions_eq)

text \<open>
  C9 as stated fails: the point \<open>(15, 15)\<close> is one radius away from the left and the top
  wall, inside the range the claim gives, and no reset puts the target there.
\<close>

theorem target_never_spawns_at_radius_margin:
  "real_of_int BALL_RADIUS \<le> 15 \<and> 15 \<le> real_of_int (SCREEN_WIDTH - BALL_RADIUS) \<and>
   real_of_int BALL_RADIUS \<le> 15 \<and> 15 \<le> real_of_int (BOARD_HEIGHT - BALL_RADIUS) \<and>
   (15, 15) \<notin> spawn_positions example_game"
  by (auto simp add: spawn_positions_eq BALL_RADIUS_def SCREEN_WIDTH_def BOARD_HEIGHT_def)

text \<open>
  C2, evaluated. A round starts with the target at \<open>(120, 100)\<close>; the player presses the
  button at \<open>(78, 100)\<close> and releases it (\<open>first_frames\<close>). In the tick of the second frame
  \<^verbatim>\<open>update_balls\<close> integrates the two balls and then calls \<^verbatim>\<open>collide_with\<close> on the player ball, by then
  \<open>cue_ball\<close>, and the resting target \<open>object_ball\<close>, the centres 20 apart on a line
  parallel to the \<open>x\<close> axis. The call reports a collision, pushes the
  balls 30 apart and leaves the sum of the velocities as it was, but with
  \<open>RESTITUTION = 0.6 < 1\<close> the kinetic energy of the normal components rises from
  1185921/5000 (about 237.2) to 86572233/125000 (about 692.6).
\<close>

theorem collide_with_raises_normal_energy:
  "run first_frames (Game_init 120 100) = after_first_collision \<and>
   update_balls launched_game =
     do_collide (Player 0) Target (launched_game\<lparr>player_balls := [cue_ball]\<rparr>) \<and>
   target_ball launched_game = object_ball \<and>
   collide_with cue_ball object_ball =
     (True, cue_ball\<lparr>x := 95, vx := - (3267 / 250)\<rparr>,
            object_ball\<lparr>x := 125, vx := 4356 / 125, moving := True\<rparr>) \<and>
   RESTITUTION < 1 \<and>
   normal_component cue_ball object_ball object_ball
     - normal_component cue_ball object_ball cue_ball = - (2178 / 100) \<and>
   vx (fst (snd (collide_with cue_ball object_ball)))
     + vx (snd (snd (collide_with cue_ball object_ball))) = vx cue_ball + vx object_ball \<and>
   vy (fst (snd (collide_with cue_ball object_ball)))
     + vy (snd (snd (collide_with cue_ball object_ball))) = vy cue_ball + vy object_ball \<and>
   normal_energy cue_ball object_ball cue_ball object_ball = 1185921 / 5000 \<and>
   normal_energy cue_ball object_ball
     (fst (snd (collide_with cue_ball object_ball)))
     (snd (snd (collide_with cue_ball object_ball))) = 86572233 / 125000"
proof -
  note c = collide_with_cue_object
  have n: "normal_component cue_ball object_ball k = vx k" for k
    by (simp add: normal_component_def cue_ball_def object_ball_def Ball_init_def Let_def
          sqrt_numeral_facts)
  have v: "vx cue_ball = 2178 / 100 \<and> vx object_ball = 0 \<and> vy cue_ball = 0 \<and> vy object_ball = 0"
    by (simp add: cue_ball_def object_ball_def Ball_init_def)
  have r: "target_ball launched_game = object_ball" by (simp add: launched_game_eq)
  have "collide_with cue_ball object_ball =
     (True, cue_ball\<lparr>x := 95, vx := - (3267 / 250)\<rparr>,
            object_ball\<lparr>x := 125, vx := 4356 / 125, moving := True\<rparr>) \<and>
   RESTITUTION < 1 \<and>
   normal_component cue_ball object_ball object_ball
     - normal_component cue_ball object_ball cue_ball = - (2178 / 100) \<and>
   vx (fst (snd (collide_with cue_ball object_ball)))
     + vx (snd (snd (collide_with cue_ball object_ball))) = vx cue_ball + vx object_ball \<and>
   vy (fst (snd (collide_with cue_ball object_ball)))
     + vy (snd (snd (collide_with cue_ball object_ball))) = vy cue_ball + vy object_ball \<and>
   normal_energy cue_ball object_ball cue_ball object_ball = 1185921 / 5000 \<and>
   normal_energy cue_ball object_ball
     (fst (snd (collide_with cue_ball object_ball)))
     (snd (snd (collide_with cue_ball object_ball))) = 86572233 / 125000"
    unfolding c normal_energy_def n
    by (simp add: v RESTITUTION_def power2_eq_square)
  with run_first_frames update_balls_launched_game r show ?thesis by blast
qed

end
